theory Spec2Isabelle
  imports Complex_Main "HOL-Library.AList" "HOL-Library.Sublist"
begin

section \<open>disk\_cpu\_load: CPU load imposed by a sequential disk read\<close>

text \<open>
  A shallow embedding of \<^verbatim>\<open>disk_cpu_load.py\<close>. Python integers are \<^typ>\<open>int\<close>
  (unbounded), Python strings are \<^typ>\<open>string\<close> with characters below code point 256
  (the statistics file is ASCII), a raised exception is the left injection of a sum, and
  what the script does to the outside (text written to standard output, a call of
  \<^verbatim>\<open>subprocess.run\<close>, a read of the statistics file) is a list of events returned
  next to the result. What the outside answers (how a child process ends, what the
  statistics file holds) is an argument of the function that asks.

  Conventions of the interpreter that are taken as given: writing to standard output
  succeeds, and the optional cap on the number of digits converted between \<^verbatim>\<open>int\<close> and
  \<^verbatim>\<open>str\<close> is switched off.
\<close>

subsection \<open>Exceptions, events and sequencing\<close>

datatype py_error =
    IndexError
  | AttributeError
  | ValueError
  | OSError
  | CalledProcessError int
  | SystemExit int

text \<open>Values of the keyword arguments handed to \<^verbatim>\<open>subprocess.run\<close>.\<close>

datatype kwval = VBool bool | VStrs "string list" | VDevNull

type_synonym kwargs = "(string \<times> kwval) list"

datatype event =
    Stdout string
  | SubprocessRun kwargs
  | OpenRead string

type_synonym 'a io = "event list \<times> (py_error + 'a)"

definition ret :: "'a \<Rightarrow> 'a io" where
  "ret x = ([], Inr x)"

definition py_raise :: "py_error \<Rightarrow> 'a io" where
  "py_raise e = ([], Inl e)"

definition emit :: "event \<Rightarrow> unit io" where
  "emit ev = ([ev], Inr ())"

text \<open>Statement sequencing: an exception skips what follows, events accumulate.\<close>

definition then_io :: "'a io \<Rightarrow> ('a \<Rightarrow> 'b io) \<Rightarrow> 'b io" where
  "then_io m f =
     (case m of
        (t, Inl e) \<Rightarrow> (t, Inl e)
      | (t, Inr x) \<Rightarrow> (case f x of (t', r) \<Rightarrow> (t @ t', r)))"

definition lift_result :: "py_error + 'a \<Rightarrow> 'a io" where
  "lift_result r = ([], r)"

subsection \<open>Builtins: indexing, \<^verbatim>\<open>str\<close> of an integer, \<^verbatim>\<open>print\<close>\<close>

text \<open>\<^verbatim>\<open>xs[i]\<close>: a negative index counts from the end, out of range raises.\<close>

definition getitem :: "'a list \<Rightarrow> int \<Rightarrow> py_error + 'a" where
  "getitem xs i =
     (if 0 \<le> i \<and> i < int (length xs) then Inr (xs ! nat i)
      else if i < 0 \<and> - int (length xs) \<le> i then Inr (xs ! nat (int (length xs) + i))
      else Inl IndexError)"

definition digit_char :: "nat \<Rightarrow> char" where
  "digit_char d = ''0123456789'' ! d"

fun str_nat :: "nat \<Rightarrow> string" where
  "str_nat n =
     (if n < 10 then [digit_char n] else str_nat (n div 10) @ [digit_char (n mod 10)])"

declare str_nat.simps [simp del]

text \<open>\<^verbatim>\<open>str(i)\<close>, which is what an f-string puts for \<^verbatim>\<open>{i}\<close>.\<close>

definition str_int :: "int \<Rightarrow> string" where
  "str_int i = (if i < 0 then CHR ''-'' # str_nat (nat (- i)) else str_nat (nat i))"

definition linesep :: string where
  "linesep = [CHR 0x0A]"

fun join :: "string \<Rightarrow> string list \<Rightarrow> string" where
  "join sep [] = []"
| "join sep [x] = x"
| "join sep (x # y # ys) = x @ sep @ join sep (y # ys)"

text \<open>\<^verbatim>\<open>print(*items, sep=sep)\<close>: the items joined by \<open>sep\<close>, then a newline.\<close>

definition py_print :: "string list \<Rightarrow> string \<Rightarrow> unit io" where
  "py_print items sep = emit (Stdout (join sep items @ [CHR 0x0A]))"

subsection \<open>\<^verbatim>\<open>compute_cpu_load\<close>\<close>

definition compute_cpu_load :: "int list \<Rightarrow> int list \<Rightarrow> bool \<Rightarrow> int io" where
  "compute_cpu_load start_load end_load verbose_mode =
     then_io (lift_result (getitem end_load 3)) (\<lambda>end3.
     then_io (lift_result (getitem start_load 3)) (\<lambda>start3.
       let diff_idle = end3 - start3;
           start_total = sum_list start_load;
           end_total = sum_list end_load;
           diff_total = end_total - start_total;
           diff_used = diff_total - diff_idle
       in
     then_io
       (if verbose_mode then
          py_print
            [''Start CPU time = '' @ str_int start_total,
             ''End CPU time = '' @ str_int end_total,
             ''CPU time used = '' @ str_int diff_used,
             ''Total elapsed time = '' @ str_int diff_total]
            linesep
        else ret ()) (\<lambda>_.
     ret (if diff_total = 0 then 0 else diff_used * 100 div diff_total))))"

text \<open>
  The load as the specification words it: zero when no time elapsed, otherwise the
  quotient of the used time (in percent) by the elapsed time, rounded towards minus
  infinity. The quotient is taken in the reals so that the rounding is explicit.
\<close>

definition spec_load :: "int list \<Rightarrow> int list \<Rightarrow> int" where
  "spec_load start_load end_load =
     (let diffTotal = sum_list end_load - sum_list start_load;
          diffUsed = diffTotal - (end_load ! 3 - start_load ! 3)
      in if diffTotal = 0 then 0
         else \<lfloor>real_of_int (diffUsed * 100) / real_of_int diffTotal\<rfloor>)"

subsection \<open>Builtins: \<^verbatim>\<open>int\<close> of a string, \<^verbatim>\<open>str.split\<close>, \<^verbatim>\<open>re.match\<close>\<close>

text \<open>
  \<^verbatim>\<open>int(s)\<close> for a string: white space around the number is dropped, one sign is
  allowed, then decimal digits, where single underscores may stand between two digits.
  Anything else raises \<^verbatim>\<open>ValueError\<close>. Below code point 256 the white space
  characters are tab, line feed, vertical tab, form feed, carriage return, space, and
  the code points 0x85 and 0xA0; the only decimal digits are \<open>0\<close> to \<open>9\<close>.
\<close>

definition is_space :: "char \<Rightarrow> bool" where
  "is_space c =
     (c \<in> set [CHR 0x09, CHR 0x0A, CHR 0x0B, CHR 0x0C, CHR 0x0D, CHR 0x20, CHR 0x85, CHR 0xA0])"

definition strip :: "string \<Rightarrow> string" where
  "strip s = rev (dropWhile is_space (rev (dropWhile is_space s)))"

definition is_digit :: "char \<Rightarrow> bool" where
  "is_digit c = (c \<in> set ''0123456789'')"

definition digit_val :: "char \<Rightarrow> int" where
  "digit_val c = int (of_char c) - 48"

fun digits_ok :: "string \<Rightarrow> bool" where
  "digits_ok [] = False"
| "digits_ok [c] = is_digit c"
| "digits_ok (c # d # cs) =
     (is_digit c \<and> (if d = CHR ''_'' then digits_ok cs else digits_ok (d # cs)))"

definition decimal :: "string \<Rightarrow> int" where
  "decimal ds = foldl (\<lambda>a c. 10 * a + digit_val c) 0 ds"

definition py_int :: "string \<Rightarrow> py_error + int" where
  "py_int s =
     (let t = strip s;
          negative = (t \<noteq> [] \<and> hd t = CHR ''-'');
          body = (if t \<noteq> [] \<and> (hd t = CHR ''-'' \<or> hd t = CHR ''+'') then tl t else t)
      in if digits_ok body
         then Inr ((if negative then - 1 else 1) * decimal (filter (\<lambda>c. c \<noteq> CHR ''_'') body))
         else Inl ValueError)"

text \<open>\<^verbatim>\<open>s.split(sep)\<close> for a separator of one character.\<close>

fun split_on :: "char \<Rightarrow> string \<Rightarrow> string list" where
  "split_on sep [] = [[]]"
| "split_on sep (c # cs) =
     (if c = sep then [] # split_on sep cs
      else (c # hd (split_on sep cs)) # tl (split_on sep cs))"

text \<open>
  \<^verbatim>\<open>re.match("cpu .*", s)\<close>: the pattern is tried at the start of the string only, the
  four characters \<^verbatim>\<open>cpu\<close> and space are literal, and the dot matches every character
  but the line feed, as often as it can. The result is the matched text
  (\<^verbatim>\<open>.group()\<close>), or \<open>None\<close>.
\<close>

definition re_match_cpu :: "string \<Rightarrow> string option" where
  "re_match_cpu s =
     (if take 4 s = ''cpu ''
      then Some (''cpu '' @ takeWhile (\<lambda>c. c \<noteq> CHR 0x0A) (drop 4 s))
      else None)"

text \<open>\<^verbatim>\<open>list(map(int, tokens))\<close>: the first token that does not parse raises.\<close>

fun map_int :: "string list \<Rightarrow> py_error + int list" where
  "map_int [] = Inr []"
| "map_int (t # ts) =
     (case py_int t of
        Inl e \<Rightarrow> Inl e
      | Inr n \<Rightarrow> (case map_int ts of Inl e \<Rightarrow> Inl e | Inr ns \<Rightarrow> Inr (n # ns)))"

subsection \<open>\<^verbatim>\<open>get_cpu_load\<close>\<close>

definition STAT_FILE_PATH :: string where
  "STAT_FILE_PATH = ''/proc/stat''"

text \<open>
  The argument is what the statistics file holds at the moment of the call: \<open>None\<close>
  when it cannot be opened or read. \<^verbatim>\<open>.group()\<close> on the \<open>None\<close> of a failed match
  raises \<^verbatim>\<open>AttributeError\<close>.
\<close>

definition get_cpu_load :: "string option \<Rightarrow> int list io" where
  "get_cpu_load stat_file =
     then_io (emit (OpenRead STAT_FILE_PATH)) (\<lambda>_.
       case stat_file of
         None \<Rightarrow> py_raise OSError
       | Some content \<Rightarrow>
           (case re_match_cpu content of
              None \<Rightarrow> py_raise AttributeError
            | Some match_cpu_stats \<Rightarrow>
                lift_result
                  (map_int (filter (\<lambda>t. t \<noteq> []) (drop 1 (split_on CHR '' '' match_cpu_stats))))))"

text \<open>
  Words used to state the properties of \<^verbatim>\<open>get_cpu_load\<close>: the lines of a content, a
  line that is an aggregate CPU line, and the fields of the text that follows the
  leading \<^verbatim>\<open>cpu\<close> and space.
\<close>

definition lines_of :: "string \<Rightarrow> string list" where
  "lines_of content = split_on (CHR 0x0A) content"

definition is_aggregate_line :: "string \<Rightarrow> bool" where
  "is_aggregate_line line = (take 4 line = ''cpu '')"

definition tokens_of :: "string \<Rightarrow> string list" where
  "tokens_of l = filter (\<lambda>t. t \<noteq> []) (split_on CHR '' '' l)"

subsection \<open>\<^verbatim>\<open>subprocess.run\<close> and \<^verbatim>\<open>run_check_subprocess\<close>\<close>

text \<open>
  How a child process ends: it exits with a return code (negative when a signal killed
  it), or it could not be started at all. \<^verbatim>\<open>subprocess.run\<close> returns the completed
  process (here its return code), raises \<^verbatim>\<open>CalledProcessError\<close> when \<^verbatim>\<open>check\<close> is
  true and the return code is not zero, and raises another exception when no child can
  be started (the program is missing, the arguments are rejected); the model names that
  exception \<^verbatim>\<open>OSError\<close>.
\<close>

datatype child = Exited int | CannotStart

fun truthy :: "kwval \<Rightarrow> bool" where
  "truthy (VBool b) = b"
| "truthy (VStrs xs) = (xs \<noteq> [])"
| "truthy VDevNull = True"

definition subprocess_run :: "kwargs \<Rightarrow> child \<Rightarrow> int io" where
  "subprocess_run kw ch =
     then_io (emit (SubprocessRun kw)) (\<lambda>_.
       case ch of
         CannotStart \<Rightarrow> py_raise OSError
       | Exited returncode \<Rightarrow>
           if (case map_of kw ''check'' of Some v \<Rightarrow> truthy v | None \<Rightarrow> False)
              \<and> returncode \<noteq> 0
           then py_raise (CalledProcessError returncode)
           else ret returncode)"

definition sys_exit :: "int \<Rightarrow> 'a io" where
  "sys_exit code = py_raise (SystemExit code)"

text \<open>\<^verbatim>\<open>try: body except subprocess.CalledProcessError: handler\<close>.\<close>

fun except_CalledProcessError :: "'a io \<Rightarrow> 'a io \<Rightarrow> 'a io" where
  "except_CalledProcessError (t, Inl (CalledProcessError rc)) handler =
     (t @ fst handler, snd handler)"
| "except_CalledProcessError (t, r) handler = (t, r)"

text \<open>
  \<^verbatim>\<open>res_run\<close> is assigned only when \<^verbatim>\<open>subprocess.run\<close> returns, so the handler still
  sees the \<open>None\<close> it was initialised with.
\<close>

definition run_check_subprocess :: "kwargs \<Rightarrow> child \<Rightarrow> unit io" where
  "run_check_subprocess kwargs ch =
     (let res_run = (None :: int option);
          kwargs = AList.update ''check'' (VBool True) kwargs
      in except_CalledProcessError
           (then_io (subprocess_run kwargs ch) (\<lambda>res_run. ret ()))
           (case res_run of
              Some returncode \<Rightarrow> sys_exit returncode
            | None \<Rightarrow> sys_exit 1))"

subsection \<open>The script\<close>

record cli_args =
  max_load :: int
  xfer :: int
  verbose :: bool
  device_filename :: string

text \<open>What the outside answers to the four requests of one run, in their order.\<close>

record env =
  flush_child :: child
  stat_start :: "string option"
  read_child :: child
  stat_end :: "string option"

definition flush_kwargs :: "cli_args \<Rightarrow> kwargs" where
  "flush_kwargs cli =
     [(''args'', VStrs [''blockdev --flushbufs '' @ device_filename cli]),
      (''shell'', VBool True)]"

definition read_kwargs :: "cli_args \<Rightarrow> kwargs" where
  "read_kwargs cli =
     [(''args'', VStrs [''dd'', ''if='' @ device_filename cli, ''of=/dev/null'',
                        ''bs=1048576'', ''count='' @ str_int (xfer cli)]),
      (''stdout'', VDevNull),
      (''stderr'', VDevNull)]"

definition main :: "cli_args \<Rightarrow> env \<Rightarrow> unit io" where
  "main cli env =
     then_io
       (py_print
          [''Testing CPU load when reading '' @ str_int (xfer cli) @ '' MiB from ''
             @ device_filename cli,
           ''Maximum acceptable CPU load is '' @ str_int (max_load cli)]
          linesep) (\<lambda>_.
     then_io (run_check_subprocess (flush_kwargs cli) (flush_child env)) (\<lambda>_.
     then_io (get_cpu_load (stat_start env)) (\<lambda>start_load.
     then_io (if verbose cli then py_print [''Beginning disk read....''] '' '' else ret ()) (\<lambda>_.
     then_io (run_check_subprocess (read_kwargs cli) (read_child env)) (\<lambda>_.
     then_io (if verbose cli then py_print [''Disk read complete!''] '' '' else ret ()) (\<lambda>_.
     then_io (get_cpu_load (stat_end env)) (\<lambda>end_load.
     then_io (compute_cpu_load start_load end_load (verbose cli)) (\<lambda>cpu_load.
     then_io (py_print [''Detected disk read CPU load is '' @ str_int cpu_load] '' '') (\<lambda>_.
     if cpu_load > max_load cli
     then then_io (py_print [''*** DISK CPU LOAD TEST HAS FAILED! ***''] '' '') (\<lambda>_. sys_exit 1)
     else ret ())))))))))"

text \<open>
  The exit status of the process: 0 when the script runs to its end, the code of an
  uncaught \<^verbatim>\<open>SystemExit\<close> (of which the system keeps the low eight bits), and 1 for
  any other uncaught exception.
\<close>

fun exit_status :: "py_error + unit \<Rightarrow> int" where
  "exit_status (Inr _) = 0"
| "exit_status (Inl (SystemExit code)) = code mod 256"
| "exit_status (Inl _) = 1"

text \<open>The operations of a run are its events other than printing.\<close>

fun is_operation :: "event \<Rightarrow> bool" where
  "is_operation (Stdout _) = False"
| "is_operation _ = True"

definition operations :: "event list \<Rightarrow> event list" where
  "operations tr = filter is_operation tr"

definition flush_call :: "cli_args \<Rightarrow> event" where
  "flush_call cli = SubprocessRun (AList.update ''check'' (VBool True) (flush_kwargs cli))"

definition read_call :: "cli_args \<Rightarrow> event" where
  "read_call cli = SubprocessRun (AList.update ''check'' (VBool True) (read_kwargs cli))"

definition snapshot :: event where
  "snapshot = OpenRead STAT_FILE_PATH"

text \<open>The fields of the first line of a content, after its first four characters.\<close>

definition first_line_fields :: "string \<Rightarrow> string list" where
  "first_line_fields content = tokens_of (takeWhile (\<lambda>c. c \<noteq> CHR 0x0A) (drop 4 content))"

text \<open>Sample inputs: a command line with the defaults of the parser, and an environment.\<close>

definition example_cli :: "int \<Rightarrow> bool \<Rightarrow> cli_args" where
  "example_cli m v = \<lparr>max_load = m, xfer = 4096, verbose = v, device_filename = ''/dev/sda''\<rparr>"

definition example_env :: "child \<Rightarrow> string option \<Rightarrow> child \<Rightarrow> env" where
  "example_env f s r =
     \<lparr>flush_child = f, stat_start = s, read_child = r, stat_end = Some ''cpu 20 0 0 100 0''\<rparr>"

subsection \<open>Facts about the model\<close>

lemma then_io_raise [simp]: "then_io (t, Inl e) f = (t, Inl e)"
  by (simp add: then_io_def)

lemma then_io_value [simp]: "then_io (t, Inr x) f = (t @ fst (f x), snd (f x))"
  by (simp add: then_io_def split: prod.splits)

lemma getitem_3 [simp]: "3 < length xs \<Longrightarrow> getitem xs 3 = Inr (xs ! 3)"
  by (simp add: getitem_def)

lemma getitem_3_short [simp]: "\<not> 3 < length xs \<Longrightarrow> getitem xs 3 = Inl IndexError"
  by (simp add: getitem_def)

lemma compute_cpu_load_result:
  "3 < length start_load \<Longrightarrow> 3 < length end_load \<Longrightarrow>
   snd (compute_cpu_load start_load end_load verbose_mode) =
     Inr (let diff_total = sum_list end_load - sum_list start_load;
              diff_used = diff_total - (end_load ! 3 - start_load ! 3)
          in if diff_total = 0 then 0 else diff_used * 100 div diff_total)"
  by (simp add: compute_cpu_load_def lift_result_def ret_def py_print_def emit_def Let_def)

lemma compute_cpu_load_short:
  "\<not> 3 < length start_load \<or> \<not> 3 < length end_load \<Longrightarrow>
   compute_cpu_load start_load end_load verbose_mode = ([], Inl IndexError)"
  by (cases "3 < length end_load")
     (auto simp add: compute_cpu_load_def lift_result_def)

lemma fst_then_io:
  "fst (then_io m f) = (case snd m of Inl e \<Rightarrow> fst m | Inr x \<Rightarrow> fst m @ fst (f x))"
  by (cases m) (simp add: then_io_def split: sum.splits prod.splits)

lemma snd_then_io:
  "snd (then_io m f) = (case snd m of Inl e \<Rightarrow> Inl e | Inr x \<Rightarrow> snd (f x))"
  by (cases m) (simp add: then_io_def split: sum.splits prod.splits)

lemma py_print_eq [simp]:
  "fst (py_print items sep) = [Stdout (join sep items @ [CHR 0x0A])]"
  "snd (py_print items sep) = Inr ()"
  by (simp_all add: py_print_def emit_def)

lemma ret_eq [simp]: "fst (ret x) = []" "snd (ret x) = Inr x"
  by (simp_all add: ret_def)

lemma sys_exit_eq [simp]: "fst (sys_exit n) = []" "snd (sys_exit n) = Inl (SystemExit n)"
  by (simp_all add: sys_exit_def py_raise_def)

lemma run_check_subprocess_eq:
  "run_check_subprocess kw ch =
     ([SubprocessRun (AList.update ''check'' (VBool True) kw)],
      case ch of
        Exited rc \<Rightarrow> if rc = 0 then Inr () else Inl (SystemExit 1)
      | CannotStart \<Rightarrow> Inl OSError)"
  by (simp add: run_check_subprocess_def subprocess_run_def emit_def update_conv'
      py_raise_def ret_def sys_exit_def split: child.splits)

lemma get_cpu_load_events [simp]: "fst (get_cpu_load sf) = [snapshot]"
  by (simp add: get_cpu_load_def emit_def snapshot_def fst_then_io py_raise_def lift_result_def
      split: option.splits)

lemma operations_compute [simp]: "operations (fst (compute_cpu_load s e v)) = []"
  by (cases "3 < length e"; cases "3 < length s")
     (simp_all add: compute_cpu_load_def lift_result_def operations_def Let_def fst_then_io)

lemma snapshot_op [simp]: "is_operation snapshot" "is_operation (flush_call cli)" "is_operation (read_call cli)"
  by (simp_all add: snapshot_def flush_call_def read_call_def)

lemma main_operations:
  "operations (fst (main cli env)) =
     flush_call cli #
       (if flush_child env = Exited 0 then
          snapshot #
            (case snd (get_cpu_load (stat_start env)) of
               Inl e \<Rightarrow> []
             | Inr start_load \<Rightarrow>
                 read_call cli #
                   (if read_child env = Exited 0 then [snapshot] else []))
        else [])"
proof (cases "verbose cli")
  case True
  then show ?thesis
    unfolding main_def
    by (simp add: fst_then_io snd_then_io run_check_subprocess_eq operations_def
        flush_call_def[symmetric] read_call_def[symmetric] operations_compute[unfolded operations_def]
        split: sum.split child.split)
next
  case False
  then show ?thesis
    unfolding main_def
    by (simp add: fst_then_io snd_then_io run_check_subprocess_eq operations_def
        flush_call_def[symmetric] read_call_def[symmetric] operations_compute[unfolded operations_def]
        split: sum.split child.split)
qed

lemma main_result:
  "snd (main cli env) =
     (case flush_child env of
        CannotStart \<Rightarrow> Inl OSError
      | Exited rc1 \<Rightarrow>
          if rc1 \<noteq> 0 then Inl (SystemExit 1)
          else (case snd (get_cpu_load (stat_start env)) of
             Inl e \<Rightarrow> Inl e
           | Inr start_load \<Rightarrow>
              (case read_child env of
                 CannotStart \<Rightarrow> Inl OSError
               | Exited rc2 \<Rightarrow>
                   if rc2 \<noteq> 0 then Inl (SystemExit 1)
                   else (case snd (get_cpu_load (stat_end env)) of
                      Inl e \<Rightarrow> Inl e
                    | Inr end_load \<Rightarrow>
                       (case snd (compute_cpu_load start_load end_load (verbose cli)) of
                          Inl e \<Rightarrow> Inl e
                        | Inr cpu_load \<Rightarrow>
                            if cpu_load > max_load cli then Inl (SystemExit 1) else Inr ())))))"
proof (cases "verbose cli")
  case True
  then show ?thesis
    unfolding main_def
    by (simp add: snd_then_io run_check_subprocess_eq split: sum.split child.split)
next
  case False
  then show ?thesis
    unfolding main_def
    by (simp add: snd_then_io run_check_subprocess_eq split: sum.split child.split)
qed

lemma map_int_error: "map_int ts = Inl e \<Longrightarrow> e = ValueError"
  by (induction ts arbitrary: e) (auto simp add: py_int_def Let_def split: sum.splits if_splits)

lemma get_cpu_load_error:
  "snd (get_cpu_load sf) = Inl e \<Longrightarrow> e = OSError \<or> e = AttributeError \<or> e = ValueError"
  by (auto simp add: get_cpu_load_def snd_then_io emit_def py_raise_def lift_result_def
      split: option.splits dest: map_int_error)

lemma compute_cpu_load_error:
  "snd (compute_cpu_load s e v) = Inl x \<Longrightarrow> x = IndexError"
  by (cases "3 < length s \<and> 3 < length e")
     (auto simp add: compute_cpu_load_result compute_cpu_load_short)

lemma exit_status_get_cpu_load:
  "snd (get_cpu_load sf) = Inl e \<Longrightarrow> exit_status (Inl e) = 1"
  by (auto dest: get_cpu_load_error)

lemma exit_status_compute:
  "snd (compute_cpu_load s e v) = Inl x \<Longrightarrow> exit_status (Inl x) = 1"
  by (auto dest: compute_cpu_load_error)

lemma main_exit_status:
  "exit_status (snd (main cli env)) =
     (if flush_child env = Exited 0 \<and> read_child env = Exited 0 then
        (case snd (get_cpu_load (stat_start env)) of
           Inl e \<Rightarrow> 1
         | Inr start_load \<Rightarrow>
            (case snd (get_cpu_load (stat_end env)) of
               Inl e \<Rightarrow> 1
             | Inr end_load \<Rightarrow>
                (case snd (compute_cpu_load start_load end_load (verbose cli)) of
                   Inl e \<Rightarrow> 1
                 | Inr cpu_load \<Rightarrow> if cpu_load > max_load cli then 1 else 0)))
      else 1)"
  by (simp add: main_result exit_status_get_cpu_load exit_status_compute
      split: sum.split child.split)

lemma split_on_not_Nil [simp]: "split_on sep s \<noteq> []"
  by (induction s) simp_all

lemma split_on_cpu: "split_on CHR '' '' (''cpu '' @ l) = ''cpu'' # split_on CHR '' '' l"
  by simp

lemma aggregate_line_decompose:
  "is_aggregate_line content \<Longrightarrow> content = ''cpu '' @ drop 4 content"
  unfolding is_aggregate_line_def by (metis append_take_drop_id)

lemma get_cpu_load_Some:
  "get_cpu_load (Some content) =
     ([snapshot],
      if is_aggregate_line content then map_int (first_line_fields content)
      else Inl AttributeError)"
  by (simp add: get_cpu_load_def emit_def snapshot_def re_match_cpu_def is_aggregate_line_def
      first_line_fields_def tokens_of_def lift_result_def py_raise_def)

lemma py_int_error: "py_int t = Inl e \<Longrightarrow> e = ValueError"
  by (simp add: py_int_def Let_def split: if_splits)

lemma map_int_Inr: "(map_int ts = Inr ns) = (map py_int ts = map Inr ns)"
proof (induction ts arbitrary: ns)
  case Nil
  then show ?case by auto
next
  case (Cons t ts)
  show ?case
  proof (cases "py_int t")
    case (Inl e)
    then show ?thesis by (cases ns) auto
  next
    case (Inr n)
    then show ?thesis
      using Cons.IH by (cases ns; cases "map_int ts") auto
  qed
qed

lemma map_int_Inl:
  "\<exists>t \<in> set ts. py_int t = Inl e \<Longrightarrow> map_int ts = Inl ValueError"
proof (induction ts)
  case Nil
  then show ?case by simp
next
  case (Cons t ts)
  show ?case
  proof (cases "py_int t")
    case (Inl e')
    then show ?thesis by (simp add: py_int_error)
  next
    case (Inr n)
    with Cons.prems have "\<exists>t \<in> set ts. py_int t = Inl e" by auto
    with Cons.IH Inr show ?thesis by simp
  qed
qed

lemma hd_lines_cpu:
  "hd (split_on (CHR 0x0A) (''cpu '' @ r)) = ''cpu '' @ hd (split_on (CHR 0x0A) r)"
  by simp

lemma aggregate_first_line:
  assumes "is_aggregate_line content"
  shows "\<exists>line \<in> set (lines_of content). is_aggregate_line line"
proof -
  from assms obtain r where c: "content = ''cpu '' @ r"
    using aggregate_line_decompose by blast
  have "hd (lines_of content) \<in> set (lines_of content)"
    by (simp add: lines_of_def)
  moreover have "is_aggregate_line (hd (lines_of content))"
    unfolding lines_of_def c hd_lines_cpu by (simp add: is_aggregate_line_def)
  ultimately show ?thesis by blast
qed

lemma first_line_fields_cpu:
  assumes "CHR 0x0A \<notin> set l" and "tail = [] \<or> hd tail = CHR 0x0A"
  shows "first_line_fields (''cpu '' @ l @ tail) = tokens_of l"
proof -
  have "takeWhile (\<lambda>c. c \<noteq> CHR 0x0A) (l @ tail) = l"
  proof (cases tail)
    case Nil
    with assms(1) show ?thesis by (auto simp add: takeWhile_eq_all_conv)
  next
    case (Cons a as)
    with assms(2) have "a = CHR 0x0A" by simp
    with Cons assms(1) show ?thesis by (auto simp add: takeWhile_tail)
  qed
  then show ?thesis by (simp add: first_line_fields_def)
qed

lemma digit_char_is_digit: "d < 10 \<Longrightarrow> is_digit (digit_char d)"
  unfolding is_digit_def digit_char_def by (rule nth_mem) simp

lemma below_ten: "(d::nat) < 10 \<Longrightarrow> d \<in> {0, 1, 2, 3, 4, 5, 6, 7, 8, 9}"
  by auto

lemma digit_val_digit_char: "d < 10 \<Longrightarrow> digit_val (digit_char d) = int d"
  by (drule below_ten) (auto simp add: digit_val_def digit_char_def)

lemma is_digit_cases:
  "is_digit c \<Longrightarrow> \<not> is_space c \<and> c \<noteq> CHR ''_'' \<and> c \<noteq> CHR ''-'' \<and> c \<noteq> CHR ''+''
     \<and> c \<noteq> CHR '' '' \<and> c \<noteq> CHR 0x0A"
  by (auto simp add: is_digit_def is_space_def)

lemma str_nat_digits: "str_nat n \<noteq> [] \<and> (\<forall>c \<in> set (str_nat n). is_digit c)"
proof (induction n rule: str_nat.induct)
  case (1 n)
  show ?case
  proof (cases "n < 10")
    case True
    then show ?thesis by (simp add: str_nat.simps [of n] digit_char_is_digit)
  next
    case False
    with "1" show ?thesis
      by (simp add: str_nat.simps [of n] digit_char_is_digit)
  qed
qed

lemma decimal_snoc: "decimal (ds @ [c]) = 10 * decimal ds + digit_val c"
  by (simp add: decimal_def)

lemma decimal_str_nat: "decimal (str_nat n) = int n"
proof (induction n rule: str_nat.induct)
  case (1 n)
  show ?case
  proof (cases "n < 10")
    case True
    then show ?thesis
      by (simp add: str_nat.simps [of n] decimal_def digit_val_digit_char)
  next
    case False
    with "1" have "decimal (str_nat (n div 10)) = int (n div 10)" by simp
    with False show ?thesis
      by (simp add: str_nat.simps [of n] decimal_snoc digit_val_digit_char) presburger
  qed
qed

lemma digits_ok_all_digits: "ds \<noteq> [] \<Longrightarrow> \<forall>c \<in> set ds. is_digit c \<Longrightarrow> digits_ok ds"
proof (induction ds rule: digits_ok.induct)
  case 1
  then show ?case by simp
next
  case (2 c)
  then show ?case by simp
next
  case (3 c d cs)
  then have "d \<noteq> CHR ''_''" using is_digit_cases [of d] by simp
  with 3 show ?case by simp
qed

lemma strip_no_space: "\<forall>c \<in> set s. \<not> is_space c \<Longrightarrow> strip s = s"
proof -
  assume a: "\<forall>c \<in> set s. \<not> is_space c"
  then have "dropWhile is_space s = s"
    by (cases s) simp_all
  moreover from a have "dropWhile is_space (rev s) = rev s"
    by (cases "rev s") (simp, metis dropWhile.simps(2) list.set_intros(1) set_rev)
  ultimately show ?thesis by (simp add: strip_def)
qed

lemma py_int_str_int: "py_int (str_int i) = Inr i"
proof -
  let ?ds = "str_nat (nat \<bar>i\<bar>)"
  have d: "?ds \<noteq> []" "\<forall>c \<in> set ?ds. is_digit c"
    using str_nat_digits by blast+
  have ok: "digits_ok ?ds" using d by (rule digits_ok_all_digits)
  have f: "filter (\<lambda>c. c \<noteq> CHR ''_'') ?ds = ?ds"
    using d(2) is_digit_cases by (simp add: filter_id_conv)
  have h: "is_digit (hd ?ds)" using d by simp
  show ?thesis
  proof (cases "i < 0")
    case True
    have "\<forall>c \<in> set (CHR ''-'' # ?ds). \<not> is_space c"
      using d(2) is_digit_cases by (auto simp add: is_space_def)
    then have "strip (CHR ''-'' # ?ds) = CHR ''-'' # ?ds" by (rule strip_no_space)
    moreover from True have "str_int i = CHR ''-'' # ?ds"
      by (simp add: str_int_def abs_if)
    ultimately show ?thesis
      using True ok f by (simp add: py_int_def decimal_str_nat)
  next
    case False
    have "\<forall>c \<in> set ?ds. \<not> is_space c" using d(2) is_digit_cases by blast
    then have "strip ?ds = ?ds" by (rule strip_no_space)
    moreover from False have "str_int i = ?ds" by (simp add: str_int_def abs_if)
    moreover have "hd ?ds \<noteq> CHR ''-''" "hd ?ds \<noteq> CHR ''+''"
      using h is_digit_cases by blast+
    ultimately show ?thesis
      using False ok f d(1) by (simp add: py_int_def decimal_str_nat)
  qed
qed

lemma str_int_chars:
  "str_int i \<noteq> [] \<and> CHR '' '' \<notin> set (str_int i) \<and> CHR 0x0A \<notin> set (str_int i)"
  using str_nat_digits [of "nat i"] str_nat_digits [of "nat (- i)"] is_digit_cases
  by (auto simp add: str_int_def)

lemma split_on_no_sep: "sep \<notin> set x \<Longrightarrow> split_on sep x = [x]"
  by (induction x) auto

lemma split_on_append_sep:
  "sep \<notin> set x \<Longrightarrow> split_on sep (x @ sep # rest) = x # split_on sep rest"
  by (induction x) auto

lemma split_on_join:
  "ts \<noteq> [] \<Longrightarrow> \<forall>t \<in> set ts. sep \<notin> set t \<Longrightarrow> split_on sep (join [sep] ts) = ts"
proof (induction "[sep]" ts rule: join.induct)
  case 1
  then show ?case by simp
next
  case (2 x)
  then show ?case by (simp add: split_on_no_sep)
next
  case (3 x y ys)
  then show ?case by (simp add: split_on_append_sep)
qed

lemma set_join: "set (join sep ts) \<subseteq> set sep \<union> \<Union> (set ` set ts)"
  by (induction sep ts rule: join.induct) auto

lemma tokens_of_join:
  "tokens_of (join '' '' (map str_int ns)) = map str_int ns"
proof (cases ns)
  case Nil
  then show ?thesis by (simp add: tokens_of_def)
next
  case (Cons n ns')
  have "split_on CHR '' '' (join [CHR '' ''] (map str_int ns)) = map str_int ns"
    using Cons str_int_chars by (intro split_on_join) auto
  moreover have "filter (\<lambda>t. t \<noteq> []) (map str_int ns) = map str_int ns"
    using str_int_chars by (simp add: filter_id_conv)
  ultimately show ?thesis by (simp add: tokens_of_def)
qed

lemma map_int_str_int: "map_int (map str_int ns) = Inr ns"
  by (induction ns) (simp_all add: py_int_str_int)

lemma newline_not_in_join: "CHR 0x0A \<notin> set (join '' '' (map str_int ns))"
proof
  assume "CHR 0x0A \<in> set (join '' '' (map str_int ns))"
  with set_join [of "'' ''" "map str_int ns"]
  have "CHR 0x0A \<in> set '' '' \<union> \<Union> (set ` set (map str_int ns))" by blast
  then show False using str_int_chars by auto
qed

lemma example_snapshots:
  "snd (get_cpu_load (Some ''cpu 10 0 0 90 0'')) = Inr [10, 0, 0, 90, 0]"
  "snd (get_cpu_load (Some ''cpu 20 0 0 100 0'')) = Inr [20, 0, 0, 100, 0]"
  "snd (get_cpu_load (Some ''intr 7'')) = Inl AttributeError"
  by code_simp+

lemma get_cpu_load_None: "get_cpu_load None = ([snapshot], Inl OSError)"
  by (simp add: get_cpu_load_def emit_def py_raise_def snapshot_def)

lemma example_load:
  "snd (compute_cpu_load [10, 0, 0, 90, 0] [20, 0, 0, 100, 0] v) = Inr 50"
  by (simp add: compute_cpu_load_result)

subsection \<open>Properties of \<^verbatim>\<open>compute_cpu_load\<close>\<close>

text \<open>
  C1. For two snapshots that each have an entry at index 3, \<^verbatim>\<open>compute_cpu_load\<close>
  returns 0 when the difference of the sums is 0, and otherwise the floor of
  \<open>diffUsed * 100 / diffTotal\<close>, where \<open>diffUsed\<close> is the difference of the sums minus
  the difference of the entries at index 3. The rounding is towards minus infinity
  also when \<open>diffUsed\<close> or \<open>diffTotal\<close> is negative.
\<close>

theorem compute_cpu_load_floor:
  assumes "3 < length start_load" and "3 < length end_load"
  shows "snd (compute_cpu_load start_load end_load verbose_mode) =
           Inr (spec_load start_load end_load)"
proof -
  let ?dt = "sum_list end_load - sum_list start_load"
  let ?du = "?dt - (end_load ! 3 - start_load ! 3)"
  have "\<lfloor>real_of_int (?du * 100) / real_of_int ?dt\<rfloor> = ?du * 100 div ?dt"
    by (rule floor_divide_of_int_eq)
  then have "spec_load start_load end_load =
               (if ?dt = 0 then 0 else ?du * 100 div ?dt)"
    by (simp add: spec_load_def Let_def)
  with assms show ?thesis
    by (simp add: compute_cpu_load_result Let_def)
qed

theorem compute_cpu_load_floor_witness:
  "3 < length [2, 0, 0, 0 :: int] \<and> 3 < length [0, 0, 0, 5 :: int] \<and>
   snd (compute_cpu_load [2, 0, 0, 0] [0, 0, 0, 5] False) = Inr (- 67) \<and>
   snd (compute_cpu_load [10, 0, 0, 90, 0] [20, 0, 0, 100, 0] False) = Inr 50 \<and>
   snd (compute_cpu_load [1, 2, 3, 4] [1, 2, 3, 4] False) = Inr 0"
  using compute_cpu_load_floor [of "[2, 0, 0, 0]" "[0, 0, 0, 5]" False]
        compute_cpu_load_floor [of "[10, 0, 0, 90, 0]" "[20, 0, 0, 100, 0]" False]
        compute_cpu_load_floor [of "[1, 2, 3, 4]" "[1, 2, 3, 4]" False]
  by (simp add: spec_load_def)

text \<open>
  C7. The verbose flag changes what is printed and nothing else: with the flag set
  and with it clear, \<^verbatim>\<open>compute_cpu_load\<close> gives the same result (the same integer, or
  the same exception) on every pair of snapshots.
\<close>

theorem compute_cpu_load_verbose_irrelevant:
  "snd (compute_cpu_load start_load end_load True) =
   snd (compute_cpu_load start_load end_load False)"
proof (cases "3 < length start_load \<and> 3 < length end_load")
  case True
  then show ?thesis by (simp add: compute_cpu_load_result)
next
  case False
  then have "\<not> 3 < length start_load \<or> \<not> 3 < length end_load" by simp
  then show ?thesis by (simp only: compute_cpu_load_short)
qed

theorem compute_cpu_load_verbose_irrelevant_witness:
  "snd (compute_cpu_load [10, 0, 0, 90, 0] [20, 0, 0, 100, 0] True) = Inr 50 \<and>
   fst (compute_cpu_load [10, 0, 0, 90, 0] [20, 0, 0, 100, 0] False) = [] \<and>
   fst (compute_cpu_load [10, 0, 0, 90, 0] [20, 0, 0, 100, 0] True) =
     [Stdout (''Start CPU time = 100'' @ [CHR 0x0A] @ ''End CPU time = 120'' @ [CHR 0x0A] @
              ''CPU time used = 10'' @ [CHR 0x0A] @ ''Total elapsed time = 20'' @ [CHR 0x0A])]"
proof -
  have r: "snd (compute_cpu_load [10, 0, 0, 90, 0] [20, 0, 0, 100, 0] False) = Inr 50"
    by (simp add: compute_cpu_load_result)
  have "fst (compute_cpu_load [10, 0, 0, 90, 0] [20, 0, 0, 100, 0] True) =
     [Stdout (''Start CPU time = 100'' @ [CHR 0x0A] @ ''End CPU time = 120'' @ [CHR 0x0A] @
              ''CPU time used = 10'' @ [CHR 0x0A] @ ''Total elapsed time = 20'' @ [CHR 0x0A])]"
    by code_simp
  moreover have "fst (compute_cpu_load [10, 0, 0, 90, 0] [20, 0, 0, 100, 0] False) = []"
    by (simp add: compute_cpu_load_def lift_result_def ret_def)
  ultimately show ?thesis
    using compute_cpu_load_verbose_irrelevant [of "[10, 0, 0, 90, 0]" "[20, 0, 0, 100, 0]"] r
    by simp
qed

text \<open>
  C8, as the code has it. \<^verbatim>\<open>compute_cpu_load\<close> reads index 3 of both lists, so it
  returns an integer on every pair of integer lists that each have at least four
  entries, and raises \<^verbatim>\<open>IndexError\<close> (printing nothing) as soon as one of them is
  shorter. Without the length condition the statement fails: see the empty lists.
\<close>

theorem compute_cpu_load_total_on_snapshots:
  "(3 < length start_load \<and> 3 < length end_load \<longrightarrow>
      (\<exists>r. snd (compute_cpu_load start_load end_load verbose_mode) = Inr r)) \<and>
   (\<not> (3 < length start_load \<and> 3 < length end_load) \<longrightarrow>
      compute_cpu_load start_load end_load verbose_mode = ([], Inl IndexError))"
  by (simp add: compute_cpu_load_result compute_cpu_load_short)

theorem compute_cpu_load_total_on_snapshots_witness:
  "3 < length [0, 0, 0, 0 :: int] \<and> 3 < length [7, 0, 0, 3, 0, 0 :: int] \<and>
   (\<exists>r. snd (compute_cpu_load [0, 0, 0, 0] [7, 0, 0, 3, 0, 0] True) = Inr r) \<and>
   \<not> (3 < length [1, 2, 3 :: int] \<and> 3 < length [7, 0, 0, 3, 0, 0 :: int]) \<and>
   compute_cpu_load [1, 2, 3] [7, 0, 0, 3, 0, 0] True = ([], Inl IndexError)"
  using compute_cpu_load_total_on_snapshots [of "[0, 0, 0, 0]" "[7, 0, 0, 3, 0, 0]" True]
        compute_cpu_load_total_on_snapshots [of "[1, 2, 3]" "[7, 0, 0, 3, 0, 0]" True]
  by simp

text \<open>Lists with fewer than four entries make \<^verbatim>\<open>compute_cpu_load\<close> fail.\<close>

theorem compute_cpu_load_short_lists_counterexample:
  "compute_cpu_load [] [] False = ([], Inl IndexError) \<and>
   \<not> (\<exists>r. snd (compute_cpu_load [1, 2, 3] [4, 5, 6] False) = Inr r)"
  by (simp add: compute_cpu_load_short)

text \<open>
  C10. The outcome of \<^verbatim>\<open>compute_cpu_load\<close> is a function of the two sums and the two
  entries at index 3. Two pairs of snapshots that agree on these four quantities give
  the same outcome (result and printed text), whatever their lengths and however the
  other counters are spread. Agreement at index 3 is agreement of the Python expression
  \<^verbatim>\<open>xs[3]\<close>, so two lists that both lack the index agree as well.
\<close>

theorem compute_cpu_load_depends_on_sums_and_idle:
  assumes "sum_list s1 = sum_list s2" and "sum_list e1 = sum_list e2"
    and "getitem s1 3 = getitem s2 3" and "getitem e1 3 = getitem e2 3"
  shows "compute_cpu_load s1 e1 verbose_mode = compute_cpu_load s2 e2 verbose_mode"
  using assms by (simp add: compute_cpu_load_def)

theorem compute_cpu_load_depends_on_sums_and_idle_witness:
  "sum_list [1, 2, 3, 4 :: int] = sum_list [6, 0, 0, 4, 0] \<and>
   sum_list [2, 3, 4, 10, 1 :: int] = sum_list [10, 0, 0, 10] \<and>
   getitem [1, 2, 3, 4 :: int] 3 = getitem [6, 0, 0, 4, 0] 3 \<and>
   getitem [2, 3, 4, 10, 1 :: int] 3 = getitem [10, 0, 0, 10] 3 \<and>
   compute_cpu_load [1, 2, 3, 4] [2, 3, 4, 10, 1] False =
     compute_cpu_load [6, 0, 0, 4, 0] [10, 0, 0, 10] False \<and>
   snd (compute_cpu_load [6, 0, 0, 4, 0] [10, 0, 0, 10] False) = Inr 40"
proof -
  have h: "sum_list [1, 2, 3, 4 :: int] = sum_list [6, 0, 0, 4, 0]"
    "sum_list [2, 3, 4, 10, 1 :: int] = sum_list [10, 0, 0, 10]"
    "getitem [1, 2, 3, 4 :: int] 3 = getitem [6, 0, 0, 4, 0] 3"
    "getitem [2, 3, 4, 10, 1 :: int] 3 = getitem [10, 0, 0, 10] 3"
    by simp_all
  have "snd (compute_cpu_load [6, 0, 0, 4, 0] [10, 0, 0, 10] False) = Inr 40"
    by (simp add: compute_cpu_load_result)
  with h compute_cpu_load_depends_on_sums_and_idle [OF h, of False] show ?thesis
    by simp
qed

subsection \<open>Properties of \<^verbatim>\<open>get_cpu_load\<close>\<close>

text \<open>
  C2, as the code has it. \<^verbatim>\<open>re.match\<close> tries the pattern at the start of the content
  only. When the content begins with the aggregate CPU line (\<^verbatim>\<open>cpu\<close> and one space),
  \<^verbatim>\<open>get_cpu_load\<close> reads that first line up to its line feed and returns the integers
  parsed from its fields, whatever follows the line. In particular a first line made of
  \<^verbatim>\<open>cpu\<close>, a space and the decimal texts of integers joined by single spaces gives
  back exactly these integers. It does not look for the aggregate line further down: a
  content whose aggregate line is not the first line is rejected with
  \<^verbatim>\<open>AttributeError\<close>.
\<close>

theorem get_cpu_load_first_line:
  assumes "tail = [] \<or> hd tail = CHR 0x0A"
  shows "(CHR 0x0A \<notin> set l \<longrightarrow>
            get_cpu_load (Some (''cpu '' @ l @ tail)) = ([snapshot], map_int (tokens_of l))) \<and>
         get_cpu_load (Some (''cpu '' @ join '' '' (map str_int ns) @ tail)) =
           ([snapshot], Inr ns)"
proof -
  have agg: "is_aggregate_line (''cpu '' @ r @ tail)" for r
    by (simp add: is_aggregate_line_def)
  have "get_cpu_load (Some (''cpu '' @ l @ tail)) = ([snapshot], map_int (tokens_of l))"
    if "CHR 0x0A \<notin> set l"
    using agg [of l]
    by (simp only: get_cpu_load_Some first_line_fields_cpu [OF that assms] if_True)
  moreover
  have "get_cpu_load (Some (''cpu '' @ join '' '' (map str_int ns) @ tail)) =
          ([snapshot], Inr ns)"
    using agg [of "join '' '' (map str_int ns)"]
    by (simp only: get_cpu_load_Some first_line_fields_cpu [OF newline_not_in_join assms]
        if_True tokens_of_join map_int_str_int)
  ultimately show ?thesis by blast
qed

theorem get_cpu_load_first_line_witness:
  "get_cpu_load (Some (''cpu '' @ '' 4705 356 584 3699 23 0'' @ (CHR 0x0A # ''cpu0 1 2 3 4''))) =
     ([snapshot], Inr [4705, 356, 584, 3699, 23, 0]) \<and>
   get_cpu_load (Some (''cpu '' @ ''10 0 0 90 0'' @ (CHR 0x0A # ''cpu0 1 2 3 4''))) =
     ([snapshot], Inr [10, 0, 0, 90, 0])"
proof -
  have a: "CHR 0x0A \<notin> set '' 4705 356 584 3699 23 0''" by simp
  have b: "CHR 0x0A # ''cpu0 1 2 3 4'' = [] \<or> hd (CHR 0x0A # ''cpu0 1 2 3 4'') = CHR 0x0A"
    by simp
  have c: "map_int (tokens_of '' 4705 356 584 3699 23 0'') = Inr [4705, 356, 584, 3699, 23, 0]"
    by code_simp
  have d: "join '' '' (map str_int [10, 0, 0, 90, 0]) = ''10 0 0 90 0''"
    by code_simp
  show ?thesis
    using get_cpu_load_first_line
      [OF b, of "'' 4705 356 584 3699 23 0''" "[10, 0, 0, 90, 0]"] a
    by (simp only: c d) simp
qed

text \<open>
  A content that holds the aggregate line as its second line is rejected: the line is
  not found.
\<close>

theorem get_cpu_load_line_not_first_counterexample:
  "is_aggregate_line ''cpu 1 2 3 4'' \<and>
   ''cpu 1 2 3 4'' \<in> set (lines_of (''intr 1'' @ [CHR 0x0A] @ ''cpu 1 2 3 4'')) \<and>
   get_cpu_load (Some (''intr 1'' @ [CHR 0x0A] @ ''cpu 1 2 3 4'')) =
     ([OpenRead ''/proc/stat''], Inl AttributeError)"
  by code_simp

text \<open>
  C3, as the code has it. \<^verbatim>\<open>get_cpu_load\<close> fails with \<^verbatim>\<open>AttributeError\<close> when no
  line of the content is an aggregate CPU line (and whenever the content does not begin
  with one), and with \<^verbatim>\<open>ValueError\<close> when the content begins with the aggregate line
  and a field of it is not accepted by \<^verbatim>\<open>int\<close>. It never returns a partial snapshot:
  a returned list holds the value of every field, in order. The fields are parsed by
  \<^verbatim>\<open>int\<close>, which accepts a sign, so a negative token is not rejected.
\<close>

theorem get_cpu_load_malformed:
  "((\<forall>line \<in> set (lines_of content). \<not> is_aggregate_line line) \<longrightarrow>
      get_cpu_load (Some content) = ([snapshot], Inl AttributeError)) \<and>
   (\<not> is_aggregate_line content \<longrightarrow>
      get_cpu_load (Some content) = ([snapshot], Inl AttributeError)) \<and>
   (is_aggregate_line content \<and>
    (\<exists>t \<in> set (first_line_fields content). py_int t = Inl ValueError) \<longrightarrow>
      get_cpu_load (Some content) = ([snapshot], Inl ValueError)) \<and>
   (snd (get_cpu_load (Some content)) = Inr xs \<longrightarrow>
      is_aggregate_line content \<and> map py_int (first_line_fields content) = map Inr xs)"
proof -
  have a: "\<not> is_aggregate_line content"
    if "\<forall>line \<in> set (lines_of content). \<not> is_aggregate_line line"
    using that aggregate_first_line by blast
  show ?thesis
    using a by (auto simp add: get_cpu_load_Some map_int_Inl map_int_Inr split: if_splits)
qed

theorem get_cpu_load_malformed_witness:
  "get_cpu_load (Some (''intr 7'' @ [CHR 0x0A] @ ''cpu0 1 2 3 4'')) = ([snapshot], Inl AttributeError) \<and>
   get_cpu_load (Some ''cpu 1 x 3 4'') = ([snapshot], Inl ValueError) \<and>
   snd (get_cpu_load (Some ''cpu 1 2 3 4'')) = Inr [1, 2, 3, 4] \<and>
   map py_int (first_line_fields ''cpu 1 2 3 4'') = map Inr [1, 2, 3, 4]"
proof -
  have a: "\<forall>line \<in> set (lines_of (''intr 7'' @ [CHR 0x0A] @ ''cpu0 1 2 3 4'')). \<not> is_aggregate_line line"
    by code_simp
  have b: "is_aggregate_line ''cpu 1 x 3 4'' \<and>
    (\<exists>t \<in> set (first_line_fields ''cpu 1 x 3 4''). py_int t = Inl ValueError)"
    by code_simp
  have c: "snd (get_cpu_load (Some ''cpu 1 2 3 4'')) = Inr [1, 2, 3, 4]"
    by code_simp
  show ?thesis
    using a b c
      get_cpu_load_malformed [where content = "''intr 7'' @ [CHR 0x0A] @ ''cpu0 1 2 3 4''"]
      get_cpu_load_malformed [where content = "''cpu 1 x 3 4''"]
      get_cpu_load_malformed [where content = "''cpu 1 2 3 4''" and xs = "[1, 2, 3, 4]"]
    by blast
qed

text \<open>
  A content whose aggregate line holds a negative token is accepted, and the token is
  parsed as a negative counter.
\<close>

theorem get_cpu_load_negative_token_counterexample:
  "is_aggregate_line ''cpu 1 2 3 -4'' \<and>
   get_cpu_load (Some ''cpu 1 2 3 -4'') = ([OpenRead ''/proc/stat''], Inr [1, 2, 3, - 4])"
  by code_simp

subsection \<open>Properties of \<^verbatim>\<open>run_check_subprocess\<close> and of the script\<close>

text \<open>
  C4, evaluated on the code. A child that exits with status 2 makes
  \<^verbatim>\<open>subprocess.run\<close> raise, so \<^verbatim>\<open>res_run\<close> is still \<open>None\<close> in the handler and
  the script exits with status 1, not with the status of the child.
\<close>

theorem run_check_subprocess_exit_code_is_one:
  "snd (run_check_subprocess kwargs (Exited 2)) = Inl (SystemExit 1) \<and>
   exit_status (snd (run_check_subprocess kwargs (Exited 2))) = 1 \<and>
   exit_status
     (snd (main cli \<lparr>flush_child = Exited 2, stat_start = s1, read_child = c, stat_end = s2\<rparr>)) = 1"
  by (simp add: run_check_subprocess_eq main_exit_status)

text \<open>
  C5. When both external operations succeed, the script exits with status 0 exactly when
  a load was computed and it is at most \<^verbatim>\<open>max_load\<close> (equality is success), and with
  status 1 when the computed load is greater; when an external operation fails, it exits
  with status 1.
\<close>

theorem main_exit_code:
  "(flush_child env = Exited 0 \<and> read_child env = Exited 0 \<longrightarrow>
      (exit_status (snd (main cli env)) = 0) =
        (\<exists>s e l. snd (get_cpu_load (stat_start env)) = Inr s \<and>
                 snd (get_cpu_load (stat_end env)) = Inr e \<and>
                 snd (compute_cpu_load s e (verbose cli)) = Inr l \<and> l \<le> max_load cli)) \<and>
   (flush_child env = Exited 0 \<and> read_child env = Exited 0 \<and>
    snd (get_cpu_load (stat_start env)) = Inr start_load \<and>
    snd (get_cpu_load (stat_end env)) = Inr end_load \<and>
    snd (compute_cpu_load start_load end_load (verbose cli)) = Inr cpu_load \<longrightarrow>
      exit_status (snd (main cli env)) = (if cpu_load \<le> max_load cli then 0 else 1)) \<and>
   (flush_child env \<noteq> Exited 0 \<or> read_child env \<noteq> Exited 0 \<longrightarrow>
      exit_status (snd (main cli env)) = 1)"
  by (auto simp add: main_exit_status split: sum.splits)

theorem main_exit_code_witness:
  "exit_status (snd (main (example_cli 50 False)
     (example_env (Exited 0) (Some ''cpu 10 0 0 90 0'') (Exited 0)))) = 0 \<and>
   exit_status (snd (main (example_cli 30 False)
     (example_env (Exited 0) (Some ''cpu 10 0 0 90 0'') (Exited 0)))) = 1 \<and>
   exit_status (snd (main (example_cli 30 False)
     (example_env (Exited 0) (Some ''cpu 10 0 0 90 0'') (Exited 2)))) = 1 \<and>
   exit_status (snd (main (example_cli 30 False)
     (example_env CannotStart (Some ''cpu 10 0 0 90 0'') (Exited 0)))) = 1"
  using
    main_exit_code [where cli = "example_cli 50 False"
      and env = "example_env (Exited 0) (Some ''cpu 10 0 0 90 0'') (Exited 0)"
      and start_load = "[10, 0, 0, 90, 0]" and end_load = "[20, 0, 0, 100, 0]" and cpu_load = 50]
    main_exit_code [where cli = "example_cli 30 False"
      and env = "example_env (Exited 0) (Some ''cpu 10 0 0 90 0'') (Exited 0)"
      and start_load = "[10, 0, 0, 90, 0]" and end_load = "[20, 0, 0, 100, 0]" and cpu_load = 50]
    main_exit_code [where cli = "example_cli 30 False"
      and env = "example_env (Exited 0) (Some ''cpu 10 0 0 90 0'') (Exited 2)"]
    main_exit_code [where cli = "example_cli 30 False"
      and env = "example_env CannotStart (Some ''cpu 10 0 0 90 0'') (Exited 0)"]
  by (simp add: example_cli_def example_env_def example_snapshots example_load)

text \<open>
  C6. The operations of a run are, in this order, the flush of the buffers, the first
  snapshot, the bulk read and the second snapshot, and a step that fails is the last one:
  when the flush fails the script exits with a status other than 0 before any snapshot
  and the bulk read is never started; when the first snapshot fails no read is started;
  when the read fails no second snapshot is taken.
\<close>

theorem main_operation_order:
  "prefix (operations (fst (main cli env))) [flush_call cli, snapshot, read_call cli, snapshot] \<and>
   (flush_child env \<noteq> Exited 0 \<longrightarrow>
      operations (fst (main cli env)) = [flush_call cli] \<and>
      exit_status (snd (main cli env)) \<noteq> 0) \<and>
   (flush_child env = Exited 0 \<and> (\<exists>e. snd (get_cpu_load (stat_start env)) = Inl e) \<longrightarrow>
      operations (fst (main cli env)) = [flush_call cli, snapshot] \<and>
      exit_status (snd (main cli env)) \<noteq> 0) \<and>
   (flush_child env = Exited 0 \<and> (\<exists>s. snd (get_cpu_load (stat_start env)) = Inr s) \<and>
    read_child env \<noteq> Exited 0 \<longrightarrow>
      operations (fst (main cli env)) = [flush_call cli, snapshot, read_call cli] \<and>
      exit_status (snd (main cli env)) \<noteq> 0) \<and>
   (flush_child env = Exited 0 \<and> (\<exists>s. snd (get_cpu_load (stat_start env)) = Inr s) \<and>
    read_child env = Exited 0 \<longrightarrow>
      operations (fst (main cli env)) = [flush_call cli, snapshot, read_call cli, snapshot])"
  by (auto simp add: main_operations main_exit_status split: sum.splits)

theorem main_operation_order_witness:
  "operations (fst (main (example_cli 30 True)
     (example_env (Exited 1) (Some ''cpu 10 0 0 90 0'') (Exited 0)))) =
     [flush_call (example_cli 30 True)] \<and>
   exit_status (snd (main (example_cli 30 True)
     (example_env (Exited 1) (Some ''cpu 10 0 0 90 0'') (Exited 0)))) \<noteq> 0 \<and>
   operations (fst (main (example_cli 30 True)
     (example_env (Exited 0) (Some ''intr 7'') (Exited 0)))) =
     [flush_call (example_cli 30 True), snapshot] \<and>
   operations (fst (main (example_cli 30 True)
     (example_env (Exited 0) (Some ''cpu 10 0 0 90 0'') CannotStart))) =
     [flush_call (example_cli 30 True), snapshot, read_call (example_cli 30 True)] \<and>
   operations (fst (main (example_cli 30 True)
     (example_env (Exited 0) (Some ''cpu 10 0 0 90 0'') (Exited 0)))) =
     [flush_call (example_cli 30 True), snapshot, read_call (example_cli 30 True), snapshot]"
  using
    main_operation_order [where cli = "example_cli 30 True"
      and env = "example_env (Exited 1) (Some ''cpu 10 0 0 90 0'') (Exited 0)"]
    main_operation_order [where cli = "example_cli 30 True"
      and env = "example_env (Exited 0) (Some ''intr 7'') (Exited 0)"]
    main_operation_order [where cli = "example_cli 30 True"
      and env = "example_env (Exited 0) (Some ''cpu 10 0 0 90 0'') CannotStart"]
    main_operation_order [where cli = "example_cli 30 True"
      and env = "example_env (Exited 0) (Some ''cpu 10 0 0 90 0'') (Exited 0)"]
  by (simp add: example_env_def example_snapshots)

text \<open>
  C9. \<^verbatim>\<open>run_check_subprocess\<close> calls \<^verbatim>\<open>subprocess.run\<close> once, with \<^verbatim>\<open>check\<close> set to
  \<open>True\<close> whatever the caller gave for that keyword, and it returns normally exactly when
  the child exited with status 0: otherwise an exception ends the script. Every call of
  \<^verbatim>\<open>subprocess.run\<close> in a run of the script has \<^verbatim>\<open>check\<close> set to \<open>True\<close>.
\<close>

theorem run_check_subprocess_forces_check:
  "fst (run_check_subprocess kwargs ch) =
     [SubprocessRun (AList.update ''check'' (VBool True) kwargs)] \<and>
   map_of (AList.update ''check'' (VBool True) kwargs) ''check'' = Some (VBool True) \<and>
   (snd (run_check_subprocess kwargs ch) = Inr ()) = (ch = Exited 0) \<and>
   (\<forall>kw. SubprocessRun kw \<in> set (fst (main cli env)) \<longrightarrow>
      map_of kw ''check'' = Some (VBool True))"
proof -
  have "map_of kw ''check'' = Some (VBool True)"
    if "SubprocessRun kw \<in> set (fst (main cli env))" for kw
  proof -
    from that have "SubprocessRun kw \<in> set (operations (fst (main cli env)))"
      by (simp add: operations_def)
    then have "SubprocessRun kw = flush_call cli \<or> SubprocessRun kw = read_call cli"
      by (auto simp add: main_operations snapshot_def split: if_splits sum.splits)
    then show ?thesis
      by (auto simp add: flush_call_def read_call_def update_conv')
  qed
  then show ?thesis
    by (simp add: run_check_subprocess_eq update_conv' split: child.split)
qed

theorem run_check_subprocess_forces_check_witness:
  "fst (run_check_subprocess [(''check'', VBool False), (''shell'', VBool True)] (Exited 3)) =
     [SubprocessRun [(''check'', VBool True), (''shell'', VBool True)]] \<and>
   snd (run_check_subprocess [(''check'', VBool False), (''shell'', VBool True)] (Exited 3))
     \<noteq> Inr () \<and>
   snd (subprocess_run [(''check'', VBool False), (''shell'', VBool True)] (Exited 3)) = Inr 3 \<and>
   snd (run_check_subprocess [(''check'', VBool False), (''shell'', VBool True)] (Exited 0))
     = Inr ()"
  using
    run_check_subprocess_forces_check
      [where kwargs = "[(''check'', VBool False), (''shell'', VBool True)]" and ch = "Exited 3"]
    run_check_subprocess_forces_check
      [where kwargs = "[(''check'', VBool False), (''shell'', VBool True)]" and ch = "Exited 0"]
  by (simp add: subprocess_run_def snd_then_io emit_def ret_def)

end
